theory Spec2Isabelle
  imports Main
begin

section \<open>The SQS consumer: data model\<close>

text \<open>
  The module is one JavaScript object, \<^verbatim>\<open>Sqs\<close>, whose methods hand continuations to
  a promise library, to the AWS client and to timers. The embedding keeps the
  fields of the object as they are assigned in the constructor, and adds the
  continuations that are pending at a given moment: the long-poll chains built by
  \<^verbatim>\<open>_receiveMessages\<close>, the \<^verbatim>\<open>map\<close> promises built by \<^verbatim>\<open>_mainLoop\<close>, the job items that
  have arrived, with the state of their handler and delete calls, and the live
  \<^verbatim>\<open>setInterval\<close> timers. Everything the object does to the outside (logger, AWS
  client, job handler) is appended to a trace.

  Conventions of the embedding:
  \<^item> one callback of the source is one step: JavaScript runs it to completion, and
    the steps of different chains interleave in any order;
  \<^item> a promise never calls a callback before the code that handed it over has
    returned. In \<^verbatim>\<open>_mainLoop\<close> the array is there when \<^verbatim>\<open>map\<close> is called, so the mapper
    calls are a step of their own (\<open>PassLaunch\<close>), after \<^verbatim>\<open>_mainLoop\<close> and its caller
    have returned. In \<^verbatim>\<open>_receiveMessages\<close> the mapper was handed over when the chain
    was built, and its calls follow \<^verbatim>\<open>_processMessages\<close> in the same step, with no call
    of the interface in between;
  \<^item> \<^verbatim>\<open>map\<close> calls its mapper on the slots of the array in their order, and stops
    calling it once a promise the mapper returns is rejected already. Its promise
    is fulfilled when every mapped promise is, and rejected with the first
    rejection; what settles after that has no effect on it;
  \<^item> a rejection reason is an error object or \<^verbatim>\<open>null\<close>/\<^verbatim>\<open>undefined\<close>, and reading a
    property of the latter throws a \<^verbatim>\<open>TypeError\<close>;
  \<^item> the promisified client methods installed by \<^verbatim>\<open>init\<close> are present, and the logger
    handed to the constructor is an object with its three methods; the reply to
    \<^verbatim>\<open>getQueueAttributes\<close>, which is only logged, is left out;
  \<^item> the job handler and the logger are external. A handler call is recorded; the
    input that delivers a reply tells, for each job item, whether the handler
    throws before it returns when called for it, which \<^verbatim>\<open>Promise.method\<close> turns into
    a promise that is rejected already; when the handler returns, its outcome
    arrives later as an input. A handler does not call the instance before it
    returns; a logger call returns normally;
  \<^item> a field set to \<^verbatim>\<open>null\<close> is \<open>None\<close> (\<open>False\<close> for the logger and the client
    handle, whose value is never inspected);
  \<^item> the field \<^verbatim>\<open>_method\<close> is \<open>jobMethod\<close>; the \<^verbatim>\<open>pathname\<close> field, used in log lines only,
    and \<^verbatim>\<open>purge\<close> are left out.
\<close>

record error =
  message :: string
  ownError :: bool
  noStack :: bool

definition Error :: "string \<Rightarrow> error" where
  "Error msg = \<lparr>message = msg, ownError = False, noStack = False\<rparr>"

definition TypeError :: "string \<Rightarrow> error" where
  "TypeError msg = \<lparr>message = msg, ownError = False, noStack = False\<rparr>"

record jobItem =
  Body :: string
  ReceiptHandle :: string

text \<open>\<^verbatim>\<open>JSON.parse\<close> and \<^verbatim>\<open>JSON.stringify\<close> are parameters; \<open>None\<close> is a parse that throws.\<close>

record 'd JSON =
  parse :: "string \<Rightarrow> 'd option"
  stringify :: "'d \<Rightarrow> string"

text \<open>
  The trace. A handler call, its settling and the delete call carry the index of
  the job item they belong to (its position in \<open>items\<close>), which the source has as
  the closure variable \<^verbatim>\<open>jobItem\<close>.
\<close>

datatype ('h, 'd) event =
    LogInfo string
  | LogWarn string jobItem
  | LogError string
  | GetQueueAttributes "string option"
  | ReceiveMessage "string option" "int option"
  | SendMessage "string option" string
  | DeleteMessage nat "string option" string
  | Handler nat 'h 'd
  | HandlerSettled nat bool

text \<open>What a promise is rejected with, how it settles, and its state (\<open>None\<close>: pending).\<close>

datatype reason = Nullish | Obj error

datatype outcome = Fulfilled | Rejected reason

type_synonym promise = "outcome option"

text \<open>
  One chain of \<^verbatim>\<open>_receiveMessages\<close>. \<open>Polling orig\<close>: the receive call is outstanding;
  \<open>orig\<close> tells whether \<^verbatim>\<open>this._processMessages\<close> and \<^verbatim>\<open>this._invokeMethod\<close>, read when
  the chain was built, were the prototype's functions or the stubs installed by
  \<^verbatim>\<open>dispose\<close>. \<open>Mapping n\<close>: \<^verbatim>\<open>map(this._invokeMethod)\<close> waits for \<open>n\<close> items.
  \<open>Decided\<close>: the chain reached its \<^verbatim>\<open>catch\<close>/\<^verbatim>\<open>finally\<close> pair, which has not run yet.
  \<open>Settled\<close>: the pair has run, and the promise \<^verbatim>\<open>_receiveMessages\<close> returned is
  settled with the given outcome.
\<close>

datatype wstate = Polling bool | Mapping nat | Decided outcome | Settled outcome

record worker =
  wpass :: nat
  wst :: wstate

text \<open>
  One \<^verbatim>\<open>map\<close> promise of \<^verbatim>\<open>_mainLoop\<close>: the length of its array, whether the mapper
  has been called on it, the number of workers it still waits for, its state,
  whether the \<^verbatim>\<open>this._mainLoop\<close> read by \<^verbatim>\<open>.finally(this._mainLoop)\<close> was the prototype's
  function, and whether its \<^verbatim>\<open>catch\<close> and \<^verbatim>\<open>finally\<close> have run.
\<close>

record pass =
  slots :: nat
  launched :: bool
  remaining :: nat
  mapResult :: promise
  mainLoopRef :: bool
  fired :: bool

text \<open>
  One job item that the backend has delivered, and what has become of it:
  \<^verbatim>\<open>_invokeMethod\<close> has not been called for it; the body did not parse; the handler
  has been called and has not settled; the delete call is outstanding; the delete
  call has settled; the handler threw or rejected; \<^verbatim>\<open>_invokeMethod\<close> itself threw a
  \<^verbatim>\<open>TypeError\<close>.
\<close>

datatype istate =
  Unseen | ParseFailed | AwaitHandler | AwaitDelete | Completed | Left | Crashed

record item =
  imsg :: jobItem
  iworker :: nat
  ist :: istate

text \<open>
  The object and what is pending around it. The fields up to \<open>heartbeatInterval\<close>
  are those of the source; \<open>inert\<close> tells that \<^verbatim>\<open>startFetch\<close>, \<^verbatim>\<open>_processMessages\<close>,
  \<^verbatim>\<open>_invokeMethod\<close> and \<^verbatim>\<open>_mainLoop\<close> of the instance are the stubs assigned by
  \<^verbatim>\<open>dispose\<close>; \<open>timers\<close> are the intervals set and not cleared; \<open>items\<close> are the job
  items of all replies, in the order of their arrival.
\<close>

record ('h, 'd) sqs =
  sqs :: bool
  log :: bool
  jobMethod :: "'h option"
  concurrentOpsLimit :: "int option"
  longPollsRequired :: int
  longPollsInFlight :: int
  url :: "string option"
  isDisposed :: bool
  heartbeatInterval :: "nat option"
  inert :: bool
  timers :: "nat list"
  nextTimer :: nat
  passes :: "pass list"
  workers :: "worker list"
  items :: "item list"
  trace :: "('h, 'd) event list"

section \<open>The constructor\<close>

definition polsRequired :: "int \<Rightarrow> error + int" where
  "polsRequired limit =
     (if limit > 10 then
        (if limit mod 10 \<noteq> 0
         then Inl (Error ''You can only define multiples of 10 beyond 10 concurrent operations limit'')
         else Inr (limit div 10))
      else Inr 1)"

definition Sqs :: "string \<Rightarrow> int \<Rightarrow> error + ('h, 'd) sqs" where
  "Sqs sqsUrl limit =
     (case polsRequired limit of
        Inl e \<Rightarrow> Inl e
      | Inr n \<Rightarrow> Inr \<lparr>sqs = False, log = True, jobMethod = None,
                      concurrentOpsLimit = Some limit,
                      longPollsRequired = n, longPollsInFlight = 0,
                      url = Some sqsUrl, isDisposed = False,
                      heartbeatInterval = None, inert = False,
                      timers = [], nextTimer = 0,
                      passes = [], workers = [], items = [], trace = []\<rparr>)"

section \<open>The methods\<close>

definition say :: "('h, 'd) event \<Rightarrow> ('h, 'd) sqs \<Rightarrow> ('h, 'd) sqs" where
  "say e st = st\<lparr>trace := trace st @ [e]\<rparr>"

definition init :: "('h, 'd) sqs \<Rightarrow> (error + unit) \<times> ('h, 'd) sqs" where
  "init st =
     (if log st
      then (Inr (),
            say (GetQueueAttributes (url st))
              (say (LogInfo ''service.sqs.connect() :: Connecting to SQS... SQS URL:'')
                 (st\<lparr>sqs := True\<rparr>)))
      else (Inl (TypeError ''Cannot read property info of null''), st))"

definition createJob :: "'d JSON \<Rightarrow> 'd \<Rightarrow> ('h, 'd) sqs \<Rightarrow> (error + unit) \<times> ('h, 'd) sqs" where
  "createJob J data st =
     (if isDisposed st then (Inl (Error ''Instance is disposed''), st)
      else (Inr (),
            say (SendMessage (url st) (stringify J data))
              (say (LogInfo ''service.sqs.createJob() :: Creating job for queue:'') st)))"

text \<open>\<^verbatim>\<open>null < 10\<close> compares \<^verbatim>\<open>ToNumber(null)\<close>, which is 0.\<close>

definition ToNumber :: "int option \<Rightarrow> int" where
  "ToNumber v = (case v of None \<Rightarrow> 0 | Some n \<Rightarrow> n)"

definition maxMessages :: "('h, 'd) sqs \<Rightarrow> int option" where
  "maxMessages st =
     (if ToNumber (concurrentOpsLimit st) < 10 then concurrentOpsLimit st else Some 10)"

definition receiveMessages :: "nat \<Rightarrow> ('h, 'd) sqs \<Rightarrow> ('h, 'd) sqs" where
  "receiveMessages p st =
     st\<lparr>longPollsInFlight := longPollsInFlight st + 1,
        trace := trace st @ [ReceiveMessage (url st) (maxMessages st)],
        workers := workers st @ [\<lparr>wpass = p, wst = Polling (\<not> inert st)\<rparr>]\<rparr>"

fun launch :: "nat \<Rightarrow> nat \<Rightarrow> ('h, 'd) sqs \<Rightarrow> ('h, 'd) sqs" where
  "launch 0 p st = st"
| "launch (Suc n) p st = launch n p (receiveMessages p st)"

definition mainLoop :: "('h, 'd) sqs \<Rightarrow> ('h, 'd) sqs" where
  "mainLoop st =
     (let invokeLongPolls = longPollsRequired st - longPollsInFlight st
      in if invokeLongPolls \<le> 0 then st
         else st\<lparr>passes := passes st @
                  [\<lparr>slots = nat invokeLongPolls, launched = False,
                    remaining = nat invokeLongPolls, mapResult = None,
                    mainLoopRef = \<not> inert st, fired = False\<rparr>]\<rparr>)"

text \<open>
  The mapper calls of the pass \<open>p\<close>: \<^verbatim>\<open>_receiveMessages\<close>, once for every slot, since
  the promise it returns is pending.
\<close>

definition passLaunch :: "nat \<Rightarrow> ('h, 'd) sqs \<Rightarrow> ('h, 'd) sqs" where
  "passLaunch p st =
     (if p < length (passes st) \<and> \<not> launched (passes st ! p)
      then launch (slots (passes st ! p)) p
             (st\<lparr>passes := (passes st)[p := (passes st ! p)\<lparr>launched := True\<rparr>]\<rparr>)
      else st)"

definition startFetch :: "'h \<Rightarrow> ('h, 'd) sqs \<Rightarrow> ('h, 'd) sqs" where
  "startFetch h st =
     (if inert st then st
      else let st1 = mainLoop (st\<lparr>jobMethod := Some h\<rparr>)
           in st1\<lparr>heartbeatInterval := Some (nextTimer st1),
                  timers := timers st1 @ [nextTimer st1],
                  nextTimer := nextTimer st1 + 1\<rparr>)"

definition processMessages ::
  "jobItem list option \<Rightarrow> ('h, 'd) sqs \<Rightarrow> (error + jobItem list) \<times> ('h, 'd) sqs" where
  "processMessages messagesRaw st =
     (if isDisposed st
      then (Inl ((Error ''Instance Disposed'')\<lparr>ownError := True\<rparr>), st)
      else case messagesRaw of
             None \<Rightarrow> (Inl ((Error ''no messages'')\<lparr>ownError := True\<rparr>), st)
           | Some ms \<Rightarrow> (Inr ms, say (LogInfo ''service.sqs._receiveMessages() :: Fetched'') st))"

text \<open>The job items of a reply, as they arrive at the worker \<open>w\<close>.\<close>

definition arrive :: "nat \<Rightarrow> jobItem list option \<Rightarrow> ('h, 'd) sqs \<Rightarrow> ('h, 'd) sqs" where
  "arrive w messagesRaw st =
     (case messagesRaw of
        None \<Rightarrow> st
      | Some ms \<Rightarrow>
          st\<lparr>items := items st @ map (\<lambda>m. \<lparr>imsg = m, iworker = w, ist = Unseen\<rparr>) ms\<rparr>)"

definition setW :: "nat \<Rightarrow> wstate \<Rightarrow> ('h, 'd) sqs \<Rightarrow> ('h, 'd) sqs" where
  "setW w s st = st\<lparr>workers := (workers st)[w := (workers st ! w)\<lparr>wst := s\<rparr>]\<rparr>"

definition setI :: "nat \<Rightarrow> istate \<Rightarrow> ('h, 'd) sqs \<Rightarrow> ('h, 'd) sqs" where
  "setI i s st = st\<lparr>items := (items st)[i := (items st ! i)\<lparr>ist := s\<rparr>]\<rparr>"

text \<open>
  \<^verbatim>\<open>_invokeMethod\<close> for the job item \<open>i\<close>. \<open>thrown\<close> is what the handler does when it is
  called: \<open>None\<close>, it returns; \<open>Some r\<close>, it throws \<open>r\<close>. The result is the state of
  the promise that \<^verbatim>\<open>_invokeMethod\<close> returns: fulfilled after a parse failure, pending
  while the handler's promise is, rejected already when something threw.
\<close>

definition invokeMethod ::
  "'d JSON \<Rightarrow> reason option \<Rightarrow> nat \<Rightarrow> jobItem \<Rightarrow> ('h, 'd) sqs \<Rightarrow> promise \<times> ('h, 'd) sqs" where
  "invokeMethod J thrown i jobItem st =
     (case parse J (Body jobItem) of
        None \<Rightarrow>
          (if log st
           then (Some Fulfilled,
                 setI i ParseFailed
                   (say (LogWarn ''service.sqs._invokeMethod() :: Failed to JSON parse jobItem'' jobItem) st))
           else (Some (Rejected (Obj (TypeError ''Cannot read property warn of null''))),
                 setI i Crashed st))
      | Some data \<Rightarrow>
          (case jobMethod st of
             None \<Rightarrow>
               (Some (Rejected (Obj (TypeError ''this._method is not a function''))),
                setI i Crashed st)
           | Some h \<Rightarrow>
               (case thrown of
                  None \<Rightarrow> (None, setI i AwaitHandler (say (Handler i h data) st))
                | Some r \<Rightarrow>
                    (Some (Rejected r),
                     setI i Left (say (HandlerSettled i False) (say (Handler i h data) st))))))"

text \<open>
  \<^verbatim>\<open>map(this._invokeMethod)\<close> on a batch whose first item has the index \<open>i\<close>; \<open>n\<close> counts
  the promises that are pending so far. The result is the state of the chain when
  the mapper calls are over.
\<close>

fun mapInvoke ::
  "'d JSON \<Rightarrow> (nat \<Rightarrow> reason option) \<Rightarrow> nat \<Rightarrow> nat \<Rightarrow> jobItem list \<Rightarrow> ('h, 'd) sqs
     \<Rightarrow> wstate \<times> ('h, 'd) sqs" where
  "mapInvoke J sync i n [] st = (if n = 0 then Decided Fulfilled else Mapping n, st)"
| "mapInvoke J sync i n (m # ms) st =
     (case invokeMethod J (sync i) i m st of
        (Some (Rejected r), st1) \<Rightarrow> (Decided (Rejected r), st1)
      | (Some Fulfilled, st1) \<Rightarrow> mapInvoke J sync (Suc i) n ms st1
      | (None, st1) \<Rightarrow> mapInvoke J sync (Suc i) (Suc n) ms st1)"

text \<open>
  The receive call of the worker \<open>w\<close> resolves. \<open>sync i\<close> tells what the handler does
  when it is called for the job item \<open>i\<close>.
\<close>

definition receiveResolved ::
  "'d JSON \<Rightarrow> nat \<Rightarrow> jobItem list option \<Rightarrow> (nat \<Rightarrow> reason option) \<Rightarrow> ('h, 'd) sqs
     \<Rightarrow> ('h, 'd) sqs" where
  "receiveResolved J w messagesRaw sync st =
     (if w < length (workers st) then
        (case wst (workers st ! w) of
           Polling orig \<Rightarrow>
             (if orig then
                (case processMessages messagesRaw (arrive w messagesRaw st) of
                   (Inl err, st1) \<Rightarrow> setW w (Decided (Rejected (Obj err))) st1
                 | (Inr ms, st1) \<Rightarrow>
                     (case mapInvoke J sync (length (items st)) 0 ms st1 of
                        (s, st2) \<Rightarrow> setW w s st2))
              else setW w (Decided (Rejected (Obj (TypeError ''expecting an array''))))
                     (arrive w messagesRaw st))
         | _ \<Rightarrow> st)
      else st)"

definition receiveRejected :: "nat \<Rightarrow> reason \<Rightarrow> ('h, 'd) sqs \<Rightarrow> ('h, 'd) sqs" where
  "receiveRejected w err st =
     (if w < length (workers st) then
        (case wst (workers st ! w) of
           Polling orig \<Rightarrow> setW w (Decided (Rejected err)) st
         | _ \<Rightarrow> st)
      else st)"

text \<open>What one item's promise does to the \<^verbatim>\<open>map\<close> promise of its worker.\<close>

definition itemFulfilled :: "nat \<Rightarrow> ('h, 'd) sqs \<Rightarrow> ('h, 'd) sqs" where
  "itemFulfilled w st =
     (if w < length (workers st) then
        (case wst (workers st ! w) of
           Mapping n \<Rightarrow> setW w (if n \<le> 1 then Decided Fulfilled else Mapping (n - 1)) st
         | _ \<Rightarrow> st)
      else st)"

definition itemRejected :: "nat \<Rightarrow> reason \<Rightarrow> ('h, 'd) sqs \<Rightarrow> ('h, 'd) sqs" where
  "itemRejected w err st =
     (if w < length (workers st) then
        (case wst (workers st ! w) of
           Mapping n \<Rightarrow> setW w (Decided (Rejected err)) st
         | _ \<Rightarrow> st)
      else st)"

definition completeJob :: "nat \<Rightarrow> string \<Rightarrow> ('h, 'd) sqs \<Rightarrow> ('h, 'd) sqs" where
  "completeJob i receiptHandle st = say (DeleteMessage i (url st) receiptHandle) st"

text \<open>The promise the handler returned settles: \<open>None\<close> fulfilled, \<open>Some err\<close> rejected.\<close>

definition handlerSettled :: "nat \<Rightarrow> reason option \<Rightarrow> ('h, 'd) sqs \<Rightarrow> ('h, 'd) sqs" where
  "handlerSettled i res st =
     (if i < length (items st) \<and> ist (items st ! i) = AwaitHandler then
        (case res of
           None \<Rightarrow>
             setI i AwaitDelete
               (completeJob i (ReceiptHandle (imsg (items st ! i)))
                  (say (HandlerSettled i True) st))
         | Some err \<Rightarrow>
             itemRejected (iworker (items st ! i)) err
               (setI i Left (say (HandlerSettled i False) st)))
      else st)"

text \<open>
  The delete call settles; its \<^verbatim>\<open>catch\<close> logs a failure and fulfils the item, or
  throws on a \<^verbatim>\<open>null\<close> logger.
\<close>

definition deleteSettled :: "nat \<Rightarrow> bool \<Rightarrow> ('h, 'd) sqs \<Rightarrow> ('h, 'd) sqs" where
  "deleteSettled i ok st =
     (if i < length (items st) \<and> ist (items st ! i) = AwaitDelete then
        (if ok then itemFulfilled (iworker (items st ! i)) (setI i Completed st)
         else if log st
         then itemFulfilled (iworker (items st ! i))
                (setI i Completed
                   (say (LogError ''service.sqs._completeJob() :: Deleting job failed. Error:'') st))
         else itemRejected (iworker (items st ! i))
                (Obj (TypeError ''Cannot read property error of null'')) (setI i Completed st))
      else st)"

text \<open>
  The \<^verbatim>\<open>catch\<close> that ends \<^verbatim>\<open>_receiveMessages\<close>, with the outcome of the promise it
  returns: it handles the rejection, or throws when it reads \<^verbatim>\<open>err.ownError\<close> of a
  reason that is \<^verbatim>\<open>null\<close> or \<^verbatim>\<open>undefined\<close>.
\<close>

definition receiveCatch :: "reason \<Rightarrow> ('h, 'd) sqs \<Rightarrow> outcome \<times> ('h, 'd) sqs" where
  "receiveCatch err st =
     (if isDisposed st then (Fulfilled, st)
      else case err of
             Nullish \<Rightarrow>
               (Rejected (Obj (TypeError ''Cannot read property ownError of undefined'')), st)
           | Obj e \<Rightarrow>
               (if ownError e then (Fulfilled, st)
                else let st1 = say (LogError ''service.sqs._receiveMessages() :: Error on receiveMessage'') st
                     in (Fulfilled,
                         if \<not> noStack e
                         then say (LogInfo ''service.sqs._receiveMessages() :: Error stack:'') st1
                         else st1)))"

text \<open>
  What a settled worker does to the \<^verbatim>\<open>map\<close> promise of its pass: nothing once that
  promise is settled; a rejection rejects it; the last fulfilment fulfils it.
\<close>

definition passProgress :: "nat \<Rightarrow> outcome \<Rightarrow> ('h, 'd) sqs \<Rightarrow> ('h, 'd) sqs" where
  "passProgress p out st =
     (if p < length (passes st) \<and> mapResult (passes st ! p) = None
      then (case out of
              Rejected err \<Rightarrow>
                st\<lparr>passes := (passes st)[p := (passes st ! p)\<lparr>mapResult := Some (Rejected err)\<rparr>]\<rparr>
            | Fulfilled \<Rightarrow>
                st\<lparr>passes := (passes st)[p := (passes st ! p)
                     \<lparr>remaining := remaining (passes st ! p) - 1,
                      mapResult := (if remaining (passes st ! p) \<le> 1 then Some Fulfilled else None)\<rparr>]\<rparr>)
      else st)"

text \<open>The \<^verbatim>\<open>catch\<close> and the \<^verbatim>\<open>finally\<close> of a worker chain run.\<close>

definition workerSettle :: "nat \<Rightarrow> ('h, 'd) sqs \<Rightarrow> ('h, 'd) sqs" where
  "workerSettle w st =
     (if w < length (workers st) then
        (case wst (workers st ! w) of
           Decided out \<Rightarrow>
             (case (case out of Fulfilled \<Rightarrow> (Fulfilled, st) | Rejected err \<Rightarrow> receiveCatch err st) of
                (res, st1) \<Rightarrow>
                  passProgress (wpass (workers st ! w)) res
                    (setW w (Settled res) (st1\<lparr>longPollsInFlight := longPollsInFlight st1 - 1\<rparr>)))
         | _ \<Rightarrow> st)
      else st)"

text \<open>
  The \<^verbatim>\<open>catch\<close> of \<^verbatim>\<open>_mainLoop\<close>; reading \<^verbatim>\<open>err.message\<close> of \<^verbatim>\<open>null\<close> or \<^verbatim>\<open>undefined\<close> throws
  before anything is logged.
\<close>

definition mainLoopCatch :: "reason \<Rightarrow> ('h, 'd) sqs \<Rightarrow> ('h, 'd) sqs" where
  "mainLoopCatch err st =
     (if isDisposed st then st
      else case err of
             Nullish \<Rightarrow> st
           | Obj e \<Rightarrow> say (LogError ''service.sqs._mainLoop() :: Error on receiveMessage for queue:'') st)"

text \<open>
  The \<^verbatim>\<open>catch\<close> and the \<^verbatim>\<open>finally\<close> of the pass \<open>p\<close> run, once its \<^verbatim>\<open>map\<close> promise is
  settled; the \<^verbatim>\<open>finally\<close> runs whatever the \<^verbatim>\<open>catch\<close> did.
\<close>

definition passSettle :: "nat \<Rightarrow> ('h, 'd) sqs \<Rightarrow> ('h, 'd) sqs" where
  "passSettle p st =
     (if p < length (passes st) \<and> \<not> fired (passes st ! p) then
        (case mapResult (passes st ! p) of
           None \<Rightarrow> st
         | Some out \<Rightarrow>
             (let st1 = (case out of Fulfilled \<Rightarrow> st | Rejected err \<Rightarrow> mainLoopCatch err st);
                  st2 = st1\<lparr>passes := (passes st1)[p := (passes st1 ! p)\<lparr>fired := True\<rparr>]\<rparr>
              in if mainLoopRef (passes st ! p) then mainLoop st2 else st2))
      else st)"

text \<open>A timer set by \<^verbatim>\<open>startFetch\<close> fires: it holds the prototype's \<^verbatim>\<open>_mainLoop\<close>, bound.\<close>

definition tick :: "nat \<Rightarrow> ('h, 'd) sqs \<Rightarrow> ('h, 'd) sqs" where
  "tick t st = (if t \<in> set (timers st) then mainLoop st else st)"

definition clearInterval :: "nat option \<Rightarrow> ('h, 'd) sqs \<Rightarrow> ('h, 'd) sqs" where
  "clearInterval t st =
     (case t of None \<Rightarrow> st | Some n \<Rightarrow> st\<lparr>timers := removeAll n (timers st)\<rparr>)"

definition dispose :: "('h, 'd) sqs \<Rightarrow> (error + unit) \<times> ('h, 'd) sqs" where
  "dispose st =
     (if isDisposed st then (Inr (), st)
      else (Inr (),
            (clearInterval (heartbeatInterval st) (st\<lparr>isDisposed := True, inert := True\<rparr>))
              \<lparr>heartbeatInterval := None, sqs := False, log := False,
               concurrentOpsLimit := None, url := None, jobMethod := None\<rparr>))"

section \<open>Runs\<close>

text \<open>
  What can happen to an instance: a call of its interface, a timer firing, the
  mapper calls of a pass, the backend or the handler settling a promise, and the
  \<^verbatim>\<open>catch\<close>/\<^verbatim>\<open>finally\<close> pair of a worker chain or of a pass getting its turn. A reply
  comes with what the handler does at the calls that the reply leads to. A step
  that is not possible in a state leaves it as it is.
\<close>

datatype ('h, 'd) action =
    Init
  | CreateJob 'd
  | StartFetch 'h
  | Dispose
  | Tick nat
  | PassLaunch nat
  | ReceiveResolved nat "jobItem list option" "nat \<Rightarrow> reason option"
  | ReceiveRejected nat reason
  | HandlerSettles nat "reason option"
  | DeleteSettles nat bool
  | WorkerSettle nat
  | PassSettle nat

fun step :: "'d JSON \<Rightarrow> ('h, 'd) action \<Rightarrow> ('h, 'd) sqs \<Rightarrow> ('h, 'd) sqs" where
  "step J Init st = snd (init st)"
| "step J (CreateJob data) st = snd (createJob J data st)"
| "step J (StartFetch h) st = startFetch h st"
| "step J Dispose st = snd (dispose st)"
| "step J (Tick t) st = tick t st"
| "step J (PassLaunch p) st = passLaunch p st"
| "step J (ReceiveResolved w r sync) st = receiveResolved J w r sync st"
| "step J (ReceiveRejected w e) st = receiveRejected w e st"
| "step J (HandlerSettles i r) st = handlerSettled i r st"
| "step J (DeleteSettles i ok) st = deleteSettled i ok st"
| "step J (WorkerSettle w) st = workerSettle w st"
| "step J (PassSettle p) st = passSettle p st"

definition run :: "'d JSON \<Rightarrow> ('h, 'd) action list \<Rightarrow> ('h, 'd) sqs \<Rightarrow> ('h, 'd) sqs" where
  "run J acts st = foldl (\<lambda>s a. step J a s) st acts"


section \<open>Notions used by the properties\<close>

text \<open>The worker chains whose \<^verbatim>\<open>finally\<close> has not run, and those whose receive call is outstanding.\<close>

fun isSettled :: "wstate \<Rightarrow> bool" where
  "isSettled (Settled out) = True"
| "isSettled _ = False"

definition unsettled :: "worker list \<Rightarrow> nat" where
  "unsettled ws = length (filter (\<lambda>w. \<not> isSettled (wst w)) ws)"

fun isPolling :: "wstate \<Rightarrow> bool" where
  "isPolling (Polling orig) = True"
| "isPolling _ = False"

definition outstanding :: "('h, 'd) sqs \<Rightarrow> nat" where
  "outstanding st = length (filter (\<lambda>w. isPolling (wst w)) (workers st))"

text \<open>The counter \<^verbatim>\<open>_longPollsInFlight\<close> counts the unsettled chains.\<close>

definition counted :: "('h, 'd) sqs \<Rightarrow> bool" where
  "counted st \<longleftrightarrow> longPollsInFlight st = int (unsettled (workers st))"

text \<open>
  What a receive request may ask for under the batch size \<open>b\<close>: the count \<open>b\<close>
  itself, or \<^verbatim>\<open>null\<close> together with a \<^verbatim>\<open>null\<close> queue URL, which is what a request
  built after \<^verbatim>\<open>dispose\<close> has cleared the fields carries.
\<close>

definition asksAtMost :: "int \<Rightarrow> ('h, 'd) event \<Rightarrow> bool" where
  "asksAtMost b e =
     (case e of
        ReceiveMessage v m \<Rightarrow> ToNumber m \<le> b \<and> (m = Some b \<or> (v = None \<and> m = None))
      | _ \<Rightarrow> True)"

definition limitKept :: "int \<Rightarrow> ('h, 'd) sqs \<Rightarrow> bool" where
  "limitKept L st \<longleftrightarrow>
     (concurrentOpsLimit st = Some L \<or> (concurrentOpsLimit st = None \<and> url st = None))
     \<and> (\<forall>e \<in> set (trace st). asksAtMost (min 10 L) e)"














text \<open>The \<^verbatim>\<open>catch\<close> and the \<^verbatim>\<open>finally\<close> of a pass, in one piece.\<close>

definition passFinally :: "nat \<Rightarrow> outcome \<Rightarrow> ('h, 'd) sqs \<Rightarrow> ('h, 'd) sqs" where
  "passFinally p out st =
     (let st1 = (case out of Fulfilled \<Rightarrow> st | Rejected err \<Rightarrow> mainLoopCatch err st);
          st2 = st1\<lparr>passes := (passes st)[p := (passes st ! p)\<lparr>fired := True\<rparr>]\<rparr>
      in if mainLoopRef (passes st ! p) then mainLoop st2 else st2)"

text \<open>The receive calls and the handler calls of a trace.\<close>

fun isReceive :: "('h, 'd) event \<Rightarrow> bool" where
  "isReceive (ReceiveMessage v m) = True"
| "isReceive _ = False"

definition receiveCalls :: "('h, 'd) event list \<Rightarrow> nat" where
  "receiveCalls tr = length (filter isReceive tr)"

fun isHandlerCall :: "('h, 'd) event \<Rightarrow> bool" where
  "isHandlerCall (Handler i h d) = True"
| "isHandlerCall _ = False"


section \<open>Sample data for the concrete runs\<close>

text \<open>A codec on which the body \<open>''{''\<close> fails to parse and every other body is its own payload.\<close>

definition sampleJSON :: "string JSON" where
  "sampleJSON = \<lparr>parse = (\<lambda>s. if s = ''{'' then None else Some s), stringify = (\<lambda>d. d)\<rparr>"

definition sampleJob :: jobItem where
  "sampleJob = \<lparr>Body = ''[1]'', ReceiptHandle = ''r1''\<rparr>"



text \<open>A handler that returns at every call, and one that throws at the call for the item \<open>n\<close>.\<close>

definition returns :: "nat \<Rightarrow> reason option" where
  "returns i = None"


text \<open>The instance a successful construction returns.\<close>

definition newSqs :: "string \<Rightarrow> int \<Rightarrow> (unit, string) sqs" where
  "newSqs sqsUrl limit = projr (Sqs sqsUrl limit)"

section \<open>Closed forms and frame lemmas\<close>

lemma launch_eq:
  "launch n p st =
     st\<lparr>longPollsInFlight := longPollsInFlight st + int n,
        trace := trace st @ replicate n (ReceiveMessage (url st) (maxMessages st)),
        workers := workers st @ replicate n \<lparr>wpass = p, wst = Polling (\<not> inert st)\<rparr>\<rparr>"
proof (induction n arbitrary: st)
  case 0
  show ?case by simp
next
  case (Suc n)
  show ?case
    by (simp add: Suc receiveMessages_def maxMessages_def replicate_app_Cons_same)
qed

lemma mainLoop_eq:
  "mainLoop st =
     (if longPollsRequired st - longPollsInFlight st \<le> 0 then st
      else st\<lparr>passes := passes st @
                 [\<lparr>slots = nat (longPollsRequired st - longPollsInFlight st), launched = False,
                   remaining = nat (longPollsRequired st - longPollsInFlight st),
                   mapResult = None, mainLoopRef = \<not> inert st, fired = False\<rparr>]\<rparr>)"
  by (simp add: mainLoop_def Let_def)

lemma passLaunch_eq:
  "passLaunch p st =
     (if p < length (passes st) \<and> \<not> launched (passes st ! p)
      then st\<lparr>passes := (passes st)[p := (passes st ! p)\<lparr>launched := True\<rparr>],
              longPollsInFlight := longPollsInFlight st + int (slots (passes st ! p)),
              trace := trace st @ replicate (slots (passes st ! p))
                                    (ReceiveMessage (url st) (maxMessages st)),
              workers := workers st @ replicate (slots (passes st ! p))
                                    \<lparr>wpass = p, wst = Polling (\<not> inert st)\<rparr>\<rparr>
      else st)"
  by (simp add: passLaunch_def launch_eq maxMessages_def)

lemma invokeMethod_frame:
  "sqs (snd (invokeMethod J t i m st)) = sqs st
   \<and> log (snd (invokeMethod J t i m st)) = log st
   \<and> jobMethod (snd (invokeMethod J t i m st)) = jobMethod st
   \<and> concurrentOpsLimit (snd (invokeMethod J t i m st)) = concurrentOpsLimit st
   \<and> longPollsRequired (snd (invokeMethod J t i m st)) = longPollsRequired st
   \<and> longPollsInFlight (snd (invokeMethod J t i m st)) = longPollsInFlight st
   \<and> url (snd (invokeMethod J t i m st)) = url st
   \<and> isDisposed (snd (invokeMethod J t i m st)) = isDisposed st
   \<and> heartbeatInterval (snd (invokeMethod J t i m st)) = heartbeatInterval st
   \<and> inert (snd (invokeMethod J t i m st)) = inert st
   \<and> timers (snd (invokeMethod J t i m st)) = timers st
   \<and> nextTimer (snd (invokeMethod J t i m st)) = nextTimer st
   \<and> passes (snd (invokeMethod J t i m st)) = passes st
   \<and> workers (snd (invokeMethod J t i m st)) = workers st"
  by (simp add: invokeMethod_def setI_def say_def split: option.splits)

lemma mapInvoke_Cons:
  "mapInvoke J sync i n (m # ms) st =
     (case fst (invokeMethod J (sync i) i m st) of
        Some (Rejected r) \<Rightarrow> (Decided (Rejected r), snd (invokeMethod J (sync i) i m st))
      | Some Fulfilled \<Rightarrow> mapInvoke J sync (Suc i) n ms (snd (invokeMethod J (sync i) i m st))
      | None \<Rightarrow> mapInvoke J sync (Suc i) (Suc n) ms (snd (invokeMethod J (sync i) i m st)))"
  by (simp split: prod.splits option.splits outcome.splits)

lemma mapInvoke_frame:
  "sqs (snd (mapInvoke J sync i n ms st)) = sqs st
   \<and> log (snd (mapInvoke J sync i n ms st)) = log st
   \<and> jobMethod (snd (mapInvoke J sync i n ms st)) = jobMethod st
   \<and> concurrentOpsLimit (snd (mapInvoke J sync i n ms st)) = concurrentOpsLimit st
   \<and> longPollsRequired (snd (mapInvoke J sync i n ms st)) = longPollsRequired st
   \<and> longPollsInFlight (snd (mapInvoke J sync i n ms st)) = longPollsInFlight st
   \<and> url (snd (mapInvoke J sync i n ms st)) = url st
   \<and> isDisposed (snd (mapInvoke J sync i n ms st)) = isDisposed st
   \<and> heartbeatInterval (snd (mapInvoke J sync i n ms st)) = heartbeatInterval st
   \<and> inert (snd (mapInvoke J sync i n ms st)) = inert st
   \<and> timers (snd (mapInvoke J sync i n ms st)) = timers st
   \<and> nextTimer (snd (mapInvoke J sync i n ms st)) = nextTimer st
   \<and> passes (snd (mapInvoke J sync i n ms st)) = passes st
   \<and> workers (snd (mapInvoke J sync i n ms st)) = workers st"
proof (induction ms arbitrary: i n st)
  case Nil
  show ?case by simp
next
  case (Cons m ms)
  show ?case
    unfolding mapInvoke_Cons
    by (simp add: Cons invokeMethod_frame split: option.splits outcome.splits)
qed

lemma mapInvoke_not_Settled: "\<not> isSettled (fst (mapInvoke J sync i n ms st))"
proof (induction ms arbitrary: i n st)
  case Nil
  show ?case by simp
next
  case (Cons m ms)
  show ?case
    unfolding mapInvoke_Cons
    by (simp add: Cons split: option.splits outcome.splits)
qed


text \<open>What \<^verbatim>\<open>_receiveMessages\<close> does once its receive call has resolved, in one piece.\<close>

lemma receiveResolved_eq:
  "receiveResolved J w r sync st =
     (if w < length (workers st) then
        (case wst (workers st ! w) of
           Polling orig \<Rightarrow>
             (if orig then
                (if isDisposed st
                 then setW w (Decided (Rejected (Obj ((Error ''Instance Disposed'')\<lparr>ownError := True\<rparr>))))
                        (arrive w r st)
                 else case r of
                        None \<Rightarrow>
                          setW w (Decided (Rejected (Obj ((Error ''no messages'')\<lparr>ownError := True\<rparr>)))) st
                      | Some ms \<Rightarrow>
                          setW w (fst (mapInvoke J sync (length (items st)) 0 ms
                                    (say (LogInfo ''service.sqs._receiveMessages() :: Fetched'')
                                       (arrive w r st))))
                            (snd (mapInvoke J sync (length (items st)) 0 ms
                                    (say (LogInfo ''service.sqs._receiveMessages() :: Fetched'')
                                       (arrive w r st)))))
              else setW w (Decided (Rejected (Obj (TypeError ''expecting an array''))))
                     (arrive w r st))
         | _ \<Rightarrow> st)
      else st)"
  by (auto simp: receiveResolved_def processMessages_def arrive_def say_def
        split: wstate.splits option.splits prod.splits)

lemmas step_defs = init_def createJob_def startFetch_def dispose_def tick_def mainLoop_eq
        passLaunch_eq
        receiveResolved_eq receiveRejected_def handlerSettled_def deleteSettled_def
        workerSettle_def passSettle_def say_def setW_def setI_def arrive_def
        itemFulfilled_def itemRejected_def completeJob_def passProgress_def receiveCatch_def
        mainLoopCatch_def Let_def mapInvoke_frame clearInterval_def

lemmas step_splits = wstate.splits option.splits outcome.splits reason.splits prod.splits
        sum.splits if_splits

lemma run_Nil: "run J [] st = st"
  by (simp add: run_def)

lemma run_Cons: "run J (a # acts) st = run J acts (step J a st)"
  by (simp add: run_def)

lemma run_append: "run J (acts @ acts') st = run J acts' (run J acts st)"
  by (simp add: run_def)

subsection \<open>Disposal is permanent\<close>

lemma step_isDisposed: "isDisposed st \<Longrightarrow> isDisposed (step J a st)"
  by (cases a) (auto simp: step_defs split: step_splits)

lemma run_isDisposed: "isDisposed st \<Longrightarrow> isDisposed (run J acts st)"
  by (induction acts arbitrary: st) (auto simp: run_Nil run_Cons step_isDisposed)

lemma dispose_isDisposed: "isDisposed (snd (dispose st))"
  by (simp add: dispose_def clearInterval_def split: option.splits)

subsection \<open>The in-flight counter\<close>

lemma filter_update_length:
  "i < length xs \<Longrightarrow>
     length (filter P (xs[i := y])) + (if P (xs ! i) then 1 else 0) =
     length (filter P xs) + (if P y then 1 else 0)"
proof (induction xs arbitrary: i)
  case Nil
  then show ?case by simp
next
  case (Cons x xs)
  then show ?case by (cases i) auto
qed

lemma unsettled_keep:
  "w < length ws \<Longrightarrow> \<not> isSettled (wst (ws ! w)) \<Longrightarrow> \<not> isSettled s \<Longrightarrow>
     unsettled (ws[w := (ws ! w)\<lparr>wst := s\<rparr>]) = unsettled ws"
  using filter_update_length [of w ws "\<lambda>w. \<not> isSettled (wst w)" "(ws ! w)\<lparr>wst := s\<rparr>"]
  by (simp add: unsettled_def)

lemma unsettled_settle:
  "w < length ws \<Longrightarrow> \<not> isSettled (wst (ws ! w)) \<Longrightarrow>
     unsettled (ws[w := (ws ! w)\<lparr>wst := Settled out\<rparr>]) + 1 = unsettled ws"
  using filter_update_length [of w ws "\<lambda>w. \<not> isSettled (wst w)" "(ws ! w)\<lparr>wst := Settled out\<rparr>"]
  by (simp add: unsettled_def)

lemma unsettled_append:
  "unsettled (ws @ replicate n \<lparr>wpass = p, wst = Polling b\<rparr>) = unsettled ws + n"
  by (simp add: unsettled_def)

lemma receiveCatch_eq:
  "\<exists>tr. snd (receiveCatch err st) = st\<lparr>trace := trace st @ tr\<rparr>
        \<and> (\<forall>e \<in> set tr. (\<exists>s. e = LogError s) \<or> (\<exists>s. e = LogInfo s))"
proof (cases "isDisposed st \<or> err = Nullish \<or> (\<exists>e. err = Obj e \<and> ownError e)")
  case True
  then have "snd (receiveCatch err st) = st\<lparr>trace := trace st @ []\<rparr>"
    by (auto simp: receiveCatch_def split: reason.splits)
  then show ?thesis by (intro exI [of _ "[]"]) simp
next
  case False
  then obtain e where e: "err = Obj e" "\<not> ownError e" "\<not> isDisposed st"
    by (cases err) auto
  show ?thesis
  proof (cases "noStack e")
    case True
    then have "snd (receiveCatch err st) = st\<lparr>trace := trace st @
        [LogError ''service.sqs._receiveMessages() :: Error on receiveMessage'']\<rparr>"
      using e by (simp add: receiveCatch_def say_def)
    then show ?thesis
      by (intro exI [of _ "[LogError ''service.sqs._receiveMessages() :: Error on receiveMessage'']"])
         simp
  next
    case False
    then have "snd (receiveCatch err st) = st\<lparr>trace := trace st @
        [LogError ''service.sqs._receiveMessages() :: Error on receiveMessage'',
         LogInfo ''service.sqs._receiveMessages() :: Error stack:'']\<rparr>"
      using e by (simp add: receiveCatch_def say_def)
    then show ?thesis
      by (intro exI [of _ "[LogError ''service.sqs._receiveMessages() :: Error on receiveMessage'',
            LogInfo ''service.sqs._receiveMessages() :: Error stack:'']"])
         simp
  qed
qed

lemma receiveCatch_outcome:
  "fst (receiveCatch err st) =
     (if err = Nullish \<and> \<not> isDisposed st
      then Rejected (Obj (TypeError ''Cannot read property ownError of undefined''))
      else Fulfilled)"
  by (simp add: receiveCatch_def Let_def split: reason.splits)

text \<open>
  The \<^verbatim>\<open>catch\<close> and \<^verbatim>\<open>finally\<close> of a worker: log lines, the counter, the state of the
  worker, and the \<^verbatim>\<open>map\<close> promise of its pass.
\<close>

lemma workerSettle_eq:
  assumes "w < length (workers st)" and "wst (workers st ! w) = Decided out"
  shows "\<exists>res tr. workerSettle w st =
        passProgress (wpass (workers st ! w)) res
          (setW w (Settled res)
             (st\<lparr>trace := trace st @ tr, longPollsInFlight := longPollsInFlight st - 1\<rparr>))
      \<and> (\<forall>e \<in> set tr. (\<exists>s. e = LogError s) \<or> (\<exists>s. e = LogInfo s))
      \<and> res = (if out = Rejected Nullish \<and> \<not> isDisposed st
               then Rejected (Obj (TypeError ''Cannot read property ownError of undefined''))
               else Fulfilled)"
proof (cases out)
  case Fulfilled
  have "workerSettle w st =
        passProgress (wpass (workers st ! w)) Fulfilled
          (setW w (Settled Fulfilled)
             (st\<lparr>trace := trace st @ [], longPollsInFlight := longPollsInFlight st - 1\<rparr>))"
    using assms Fulfilled by (simp add: workerSettle_def)
  then show ?thesis using Fulfilled
    by (intro exI [of _ Fulfilled] exI [of _ "[]"]) simp
next
  case (Rejected err)
  obtain tr where tr: "snd (receiveCatch err st) = st\<lparr>trace := trace st @ tr\<rparr>"
    and lg: "\<forall>e \<in> set tr. (\<exists>s. e = LogError s) \<or> (\<exists>s. e = LogInfo s)"
    using receiveCatch_eq by blast
  let ?res = "fst (receiveCatch err st)"
  have "workerSettle w st =
        passProgress (wpass (workers st ! w)) ?res
          (setW w (Settled ?res)
             (st\<lparr>trace := trace st @ tr, longPollsInFlight := longPollsInFlight st - 1\<rparr>))"
    using assms Rejected tr by (cases "receiveCatch err st") (simp add: workerSettle_def)
  then show ?thesis using lg Rejected receiveCatch_outcome [of err st]
    by (intro exI [of _ ?res] exI [of _ tr]) auto
qed

lemma passProgress_frame:
  "workers (passProgress p res st) = workers st
   \<and> longPollsInFlight (passProgress p res st) = longPollsInFlight st
   \<and> longPollsRequired (passProgress p res st) = longPollsRequired st
   \<and> trace (passProgress p res st) = trace st
   \<and> items (passProgress p res st) = items st
   \<and> concurrentOpsLimit (passProgress p res st) = concurrentOpsLimit st
   \<and> url (passProgress p res st) = url st
   \<and> isDisposed (passProgress p res st) = isDisposed st
   \<and> log (passProgress p res st) = log st
   \<and> inert (passProgress p res st) = inert st
   \<and> jobMethod (passProgress p res st) = jobMethod st
   \<and> timers (passProgress p res st) = timers st
   \<and> length (passes (passProgress p res st)) = length (passes st)"
  by (simp add: passProgress_def split: outcome.splits)

lemma step_counted: "counted st \<Longrightarrow> counted (step J a st)"
proof (cases a)
  case (WorkerSettle w)
  assume c: "counted st"
  show ?thesis
  proof (cases "w < length (workers st) \<and> (\<exists>out. wst (workers st ! w) = Decided out)")
    case True
    then obtain out where w: "w < length (workers st)"
      and d: "wst (workers st ! w) = Decided out" by blast
    obtain res tr where eq: "workerSettle w st =
        passProgress (wpass (workers st ! w)) res
          (setW w (Settled res)
             (st\<lparr>trace := trace st @ tr, longPollsInFlight := longPollsInFlight st - 1\<rparr>))"
      using workerSettle_eq [OF w d] by blast
    have "unsettled ((workers st)[w := (workers st ! w)\<lparr>wst := Settled res\<rparr>]) + 1
            = unsettled (workers st)"
      using unsettled_settle [OF w] d by simp
    then show ?thesis using c unfolding WorkerSettle step.simps eq
      by (simp add: counted_def passProgress_frame setW_def)
  next
    case False
    then show ?thesis using c WorkerSettle
      by (auto simp: counted_def workerSettle_def split: wstate.splits)
  qed
qed (auto simp: counted_def step_defs unsettled_keep unsettled_append mapInvoke_not_Settled
       split: step_splits)

lemma run_counted: "counted st \<Longrightarrow> counted (run J acts st)"
  by (induction acts arbitrary: st) (auto simp: run_Nil run_Cons step_counted)

lemma Sqs_counted: "(Sqs u L :: error + ('h, 'd) sqs) = Inr st0 \<Longrightarrow> counted st0"
  by (auto simp: Sqs_def polsRequired_def counted_def unsettled_def split: if_splits)

lemma inFlight_never_negative:
  "(Sqs u L :: error + ('h, 'd) sqs) = Inr st0 \<Longrightarrow> 0 \<le> longPollsInFlight (run J acts st0)"
  using run_counted [OF Sqs_counted, of u L st0 J acts] by (simp add: counted_def)

subsection \<open>The receive requests\<close>

lemma asksAtMost_simps:
  "asksAtMost b (LogInfo s) = True"
  "asksAtMost b (LogWarn s j) = True"
  "asksAtMost b (LogError s) = True"
  "asksAtMost b (GetQueueAttributes v) = True"
  "asksAtMost b (SendMessage v s) = True"
  "asksAtMost b (DeleteMessage i v s) = True"
  "asksAtMost b (Handler i h d) = True"
  "asksAtMost b (HandlerSettled i ok) = True"
  by (simp_all add: asksAtMost_def)

lemma invokeMethod_asks:
  "\<forall>e \<in> set (trace st). asksAtMost b e \<Longrightarrow>
     \<forall>e \<in> set (trace (snd (invokeMethod J t i m st))). asksAtMost b e"
  by (auto simp: invokeMethod_def setI_def say_def asksAtMost_simps split: option.splits)

lemma mapInvoke_asks:
  "\<forall>e \<in> set (trace st). asksAtMost b e \<Longrightarrow>
     \<forall>e \<in> set (trace (snd (mapInvoke J sync i n ms st))). asksAtMost b e"
proof (induction ms arbitrary: i n st)
  case Nil
  then show ?case by simp
next
  case (Cons m ms)
  have 1: "\<forall>e \<in> set (trace (snd (invokeMethod J (sync i) i m st))). asksAtMost b e"
    by (rule invokeMethod_asks [OF Cons.prems])
  show ?case
    unfolding mapInvoke_Cons
    using 1 Cons.IH [OF 1] by (simp split: option.splits outcome.splits)
qed

lemma maxMessages_kept:
  "0 < L \<Longrightarrow> concurrentOpsLimit st = Some L \<or> (concurrentOpsLimit st = None \<and> url st = None) \<Longrightarrow>
     asksAtMost (min 10 L) (ReceiveMessage (url st) (maxMessages st))"
  by (auto simp: asksAtMost_def maxMessages_def ToNumber_def)

lemma mainLoop_limitKept: "limitKept L st \<Longrightarrow> limitKept L (mainLoop st)"
  by (auto simp: limitKept_def mainLoop_eq)

lemma passLaunch_limitKept: "0 < L \<Longrightarrow> limitKept L st \<Longrightarrow> limitKept L (passLaunch p st)"
  using maxMessages_kept [of L st] by (auto simp: limitKept_def passLaunch_eq)

lemma limitKept_cong:
  "limitKept L st \<Longrightarrow> concurrentOpsLimit st' = concurrentOpsLimit st \<Longrightarrow> url st' = url st \<Longrightarrow>
     trace st' = trace st \<Longrightarrow> limitKept L st'"
  by (simp add: limitKept_def)

lemma step_limitKept: "0 < L \<Longrightarrow> limitKept L st \<Longrightarrow> limitKept L (step J a st)"
proof (cases a)
  case (ReceiveResolved w r sync)
  assume "0 < L" and k: "limitKept L st"
  have "\<forall>e \<in> set (trace (snd (mapInvoke J sync i n ms
                 (st\<lparr>items := its, trace := trace st @ [LogInfo s]\<rparr>)))).
           asksAtMost (min 10 L) e" for ms s i n its
    by (rule mapInvoke_asks) (use k in \<open>auto simp: limitKept_def asksAtMost_simps\<close>)
  then show ?thesis using k ReceiveResolved
    by (auto simp: limitKept_def receiveResolved_eq setW_def arrive_def
          mapInvoke_frame asksAtMost_simps say_def split: step_splits)
next
  case (StartFetch h)
  assume L: "0 < L" and k: "limitKept L st"
  have "limitKept L (mainLoop (st\<lparr>jobMethod := Some h\<rparr>))"
    by (rule mainLoop_limitKept) (rule limitKept_cong [OF k], simp_all)
  then show ?thesis using k StartFetch
    by (auto simp: startFetch_def Let_def limitKept_def)
next
  case (Tick t)
  assume "0 < L" "limitKept L st"
  then show ?thesis using Tick mainLoop_limitKept [of L st]
    by (auto simp: tick_def)
next
  case (PassLaunch p)
  assume "0 < L" "limitKept L st"
  then show ?thesis using PassLaunch by (simp add: passLaunch_limitKept)
next
  case (PassSettle p)
  assume L: "0 < L" and k: "limitKept L st"
  have c: "limitKept L (mainLoopCatch err st)" for err
    using k
    by (auto simp: limitKept_def mainLoopCatch_def say_def asksAtMost_simps split: reason.splits)
  have u: "limitKept L (st'\<lparr>passes := ps\<rparr>)" if "limitKept L st'" for st' :: "('a, 'b) sqs" and ps
    by (rule limitKept_cong [OF that]) simp_all
  have m: "limitKept L (mainLoop (st'\<lparr>passes := ps\<rparr>))" if "limitKept L st'"
    for st' :: "('a, 'b) sqs" and ps
    by (rule mainLoop_limitKept) (rule u [OF that])
  show ?thesis unfolding PassSettle step.simps passSettle_def Let_def
    using k c u m by (simp split: option.splits outcome.splits)
next
  case (WorkerSettle w)
  assume L: "0 < L" and k: "limitKept L st"
  show ?thesis
  proof (cases "w < length (workers st) \<and> (\<exists>out. wst (workers st ! w) = Decided out)")
    case True
    then obtain out where w: "w < length (workers st)"
      and d: "wst (workers st ! w) = Decided out" by blast
    obtain res tr where eq: "workerSettle w st =
        passProgress (wpass (workers st ! w)) res
          (setW w (Settled res)
             (st\<lparr>trace := trace st @ tr, longPollsInFlight := longPollsInFlight st - 1\<rparr>))"
      and lg: "\<forall>e \<in> set tr. (\<exists>s. e = LogError s) \<or> (\<exists>s. e = LogInfo s)"
      using workerSettle_eq [OF w d] by blast
    have "asksAtMost (min 10 L) e" if "e \<in> set tr" for e
      using lg that by (auto simp: asksAtMost_simps)
    then show ?thesis using k unfolding WorkerSettle step.simps eq
      by (auto simp: limitKept_def passProgress_frame setW_def)
  next
    case False
    then show ?thesis using k WorkerSettle
      by (auto simp: workerSettle_def split: wstate.splits)
  qed
qed (auto simp: limitKept_def step_defs asksAtMost_simps split: step_splits)

lemma run_limitKept: "0 < L \<Longrightarrow> limitKept L st \<Longrightarrow> limitKept L (run J acts st)"
  by (induction acts arbitrary: st) (auto simp: run_Nil run_Cons step_limitKept)

subsection \<open>The history of a job item\<close>



















































subsection \<open>The workers a pass waits for\<close>























lemma mainLoopCatch_frame:
  "passes (mainLoopCatch err st) = passes st \<and> workers (mainLoopCatch err st) = workers st"
  by (simp add: mainLoopCatch_def say_def split: reason.splits)

lemma passSettle_eq:
  "passSettle p st =
     (if p < length (passes st) \<and> \<not> fired (passes st ! p) then
        (case mapResult (passes st ! p) of None \<Rightarrow> st | Some out \<Rightarrow> passFinally p out st)
      else st)"
  by (auto simp: passSettle_def passFinally_def Let_def mainLoopCatch_frame
        split: option.splits outcome.splits)






subsection \<open>The trace only grows\<close>





subsection \<open>The job items of a reply\<close>







subsection \<open>Which job items the mapper reaches\<close>







subsection \<open>What settles a handler call\<close>






subsection \<open>Settling a worker, settling a pass\<close>







subsection \<open>After disposal\<close>

lemma step_no_handler_call:
  "isDisposed st \<Longrightarrow> filter isHandlerCall (trace (step J a st)) = filter isHandlerCall (trace st)"
proof (cases a)
  case (WorkerSettle w)
  assume "isDisposed st"
  show ?thesis
  proof (cases "w < length (workers st) \<and> (\<exists>out. wst (workers st ! w) = Decided out)")
    case True
    then obtain out where w: "w < length (workers st)"
      and d: "wst (workers st ! w) = Decided out" by blast
    obtain res tr where eq: "workerSettle w st =
        passProgress (wpass (workers st ! w)) res
          (setW w (Settled res)
             (st\<lparr>trace := trace st @ tr, longPollsInFlight := longPollsInFlight st - 1\<rparr>))"
      and lg: "\<forall>e \<in> set tr. (\<exists>s. e = LogError s) \<or> (\<exists>s. e = LogInfo s)"
      using workerSettle_eq [OF w d] by blast
    have "filter isHandlerCall tr = []" using lg by (auto simp: filter_empty_conv)
    then show ?thesis unfolding WorkerSettle step.simps eq
      by (simp add: passProgress_frame setW_def)
  next
    case False
    then show ?thesis using WorkerSettle by (auto simp: workerSettle_def split: wstate.splits)
  qed
next
  case (PassSettle p)
  assume "isDisposed st"
  then show ?thesis unfolding PassSettle
    by (auto simp: passSettle_eq passFinally_def mainLoop_eq mainLoopCatch_def Let_def
          split: option.splits outcome.splits)
qed (auto simp: step_defs split: step_splits)

lemma run_no_handler_call:
  "isDisposed st \<Longrightarrow> filter isHandlerCall (trace (run J acts st)) = filter isHandlerCall (trace st)"
  by (induction acts arbitrary: st)
     (auto simp: run_Nil run_Cons step_no_handler_call step_isDisposed)

section \<open>The concurrency limit accepted by the constructor\<close>

text \<open>
  Claim C2. For every positive integer limit \<open>L\<close>, the constructor returns an
  instance when \<open>L \<le> 10\<close>, or when \<open>L > 10\<close> and \<open>L\<close> is a multiple of 10; for every
  other positive integer it returns the configuration error. The error is the
  result of the constructor itself: no instance exists on which a fetch could start.
\<close>

theorem Sqs_limit_check:
  "0 < L \<Longrightarrow>
     (if L \<le> 10 \<or> (10 < L \<and> L mod 10 = 0)
      then \<exists>st. (Sqs u L :: error + ('h, 'd) sqs) = Inr st
      else (Sqs u L :: error + ('h, 'd) sqs) =
             Inl (Error ''You can only define multiples of 10 beyond 10 concurrent operations limit''))"
  by (simp add: Sqs_def polsRequired_def)

theorem Sqs_limit_check_witness:
  "(0::int) < 15 \<and> (Sqs ''q'' 15 :: error + (unit, unit) sqs) =
      Inl (Error ''You can only define multiples of 10 beyond 10 concurrent operations limit'')"
  using Sqs_limit_check [of 15 "''q''", where ?'h = unit and ?'d = unit] by simp

text \<open>
  Claim C8 says that construction fails for every limit other than 10 and the
  multiples of 10 above it, the limits 1 to 9 included. The constructor only
  looks at limits above 10: with the limit 1 it returns an instance.
\<close>

theorem Sqs_limit_one_constructs: "\<not> isl (Sqs ''q'' 1 :: error + (unit, unit) sqs)"
  by (simp add: Sqs_def polsRequired_def)

text \<open>
  Claim C8, amended. Construction fails exactly for the limits above 10 that are
  no multiple of 10; every limit up to 10, so every limit from 1 to 9, and every
  multiple of 10 above 10 is accepted.
\<close>

theorem Sqs_fails_iff:
  "isl (Sqs u L :: error + ('h, 'd) sqs) = (10 < L \<and> L mod 10 \<noteq> 0)"
  by (simp add: Sqs_def polsRequired_def)

theorem Sqs_fails_iff_witness:
  "\<not> isl (Sqs ''q'' 7 :: error + (unit, unit) sqs) \<and> isl (Sqs ''q'' 17 :: error + (unit, unit) sqs)"
  using Sqs_fails_iff [of "''q''" 7, where ?'h = unit and ?'d = unit]
        Sqs_fails_iff [of "''q''" 17, where ?'h = unit and ?'d = unit] by simp

section \<open>The worker budget\<close>

text \<open>
  With one call of \<^verbatim>\<open>startFetch\<close> and the limit 20: a heartbeat that falls between
  the settling of the two workers splits the pool into two passes; when the last
  worker of each pass settles before the relaunch of the other has started, both
  relaunches are computed from the old counter and three workers are started.
\<close>

lemma overshoot_with_one_startFetch:
  "longPollsInFlight (run sampleJSON
      [StartFetch (), PassLaunch 0,
       ReceiveResolved 0 None returns, WorkerSettle 0,
       Tick 0, PassLaunch 1,
       ReceiveResolved 1 None returns, WorkerSettle 1, PassSettle 0, PassLaunch 2,
       ReceiveResolved 2 None returns, WorkerSettle 2, PassSettle 1,
       ReceiveResolved 3 None returns, WorkerSettle 3, PassSettle 2,
       PassLaunch 3, PassLaunch 4] (newSqs ''q'' 20)) = 3"
  by code_simp

text \<open>
  Claim C4 says that in every state an instance can reach the counter
  \<^verbatim>\<open>_longPollsInFlight\<close> lies between 0 and \<^verbatim>\<open>_longPollsRequired\<close>, and that with a
  limit \<open>L > 10\<close> at most \<open>L div 10\<close> receive calls are outstanding. The counter
  counts the unsettled worker chains, so it is never negative
  (\<open>inFlight_never_negative\<close>). Its upper bound rests on the deficit that \<^verbatim>\<open>_mainLoop\<close>
  computes, and the counter only grows when the mapper runs, after \<^verbatim>\<open>_mainLoop\<close> and
  its caller have returned: every \<^verbatim>\<open>_mainLoop\<close> that runs in between sees the same
  deficit. With the limit 20, two calls of \<^verbatim>\<open>startFetch\<close> in a row schedule two
  passes of two workers each, and four receive calls are outstanding against a
  budget of two.
\<close>

theorem inFlight_exceeds_budget:
  "longPollsRequired (run sampleJSON
      [StartFetch (), StartFetch (), PassLaunch 0, PassLaunch 1] (newSqs ''q'' 20)) = 2
   \<and> longPollsInFlight (run sampleJSON
      [StartFetch (), StartFetch (), PassLaunch 0, PassLaunch 1] (newSqs ''q'' 20)) = 4
   \<and> outstanding (run sampleJSON
      [StartFetch (), StartFetch (), PassLaunch 0, PassLaunch 1] (newSqs ''q'' 20)) = 4"
  by code_simp

text \<open>
  Claim C5. An instance built with the positive limit \<open>L\<close> has
  \<^verbatim>\<open>_longPollsRequired\<close> equal to 1 when \<open>L \<le> 10\<close> and to \<open>L div 10\<close> otherwise, and every
  receive request it ever issues asks for at most \<open>min 10 L\<close> items: the request
  names exactly \<open>min 10 L\<close>, except that one built after \<^verbatim>\<open>dispose\<close> cleared the
  fields carries \<^verbatim>\<open>null\<close> for the queue URL and for the count.
\<close>

theorem budget_and_batch_size:
  assumes "0 < L" and "(Sqs u L :: error + ('h, 'd) sqs) = Inr st0"
  shows "longPollsRequired st0 = (if L \<le> 10 then 1 else L div 10)
       \<and> (\<forall>v m. ReceiveMessage v m \<in> set (trace (run J acts st0)) \<longrightarrow>
             ToNumber m \<le> min 10 L \<and> (m = Some (min 10 L) \<or> (v = None \<and> m = None)))"
proof -
  have req: "longPollsRequired st0 = (if L \<le> 10 then 1 else L div 10)"
    and k0: "limitKept L st0"
    using assms(2)
    by (auto simp: Sqs_def polsRequired_def limitKept_def split: if_splits)
  have "limitKept L (run J acts st0)" using assms(1) k0 by (rule run_limitKept)
  then have "\<forall>e \<in> set (trace (run J acts st0)). asksAtMost (min 10 L) e"
    by (simp add: limitKept_def)
  then have "\<forall>v m. ReceiveMessage v m \<in> set (trace (run J acts st0)) \<longrightarrow>
             ToNumber m \<le> min 10 L \<and> (m = Some (min 10 L) \<or> (v = None \<and> m = None))"
    by (fastforce simp: asksAtMost_def)
  with req show ?thesis by blast
qed

theorem budget_and_batch_size_witness:
  "(0::int) < 7 \<and> (Sqs ''q'' 7 :: error + (unit, string) sqs) = Inr (newSqs ''q'' 7)
   \<and> ReceiveMessage (Some ''q'') (Some 7)
       \<in> set (trace (run sampleJSON [StartFetch (), PassLaunch 0] (newSqs ''q'' 7)))
   \<and> longPollsRequired (newSqs ''q'' 7) = 1"
  using budget_and_batch_size
    [of 7 "''q''" "newSqs ''q'' 7" sampleJSON "[StartFetch (), PassLaunch 0]"]
  by (simp add: newSqs_def Sqs_def polsRequired_def run_def startFetch_def mainLoop_def
        passLaunch_def receiveMessages_def maxMessages_def ToNumber_def Let_def)

section \<open>Disposal\<close>

text \<open>
  Claim C9. \<^verbatim>\<open>dispose\<close> is idempotent: once it has been called, a later call,
  whatever happened in between, returns normally and leaves the state as it is.
\<close>

theorem dispose_twice:
  "dispose (run J acts (snd (dispose st))) = (Inr (), run J acts (snd (dispose st)))"
  using run_isDisposed [OF dispose_isDisposed, of J acts st] by (simp add: dispose_def)

text \<open>
  Claim C10. Once \<^verbatim>\<open>dispose\<close> has been called, every later \<^verbatim>\<open>createJob\<close> is rejected
  with the error \<open>''Instance is disposed''\<close> and leaves the state, the trace included,
  as it is: no send reaches the backend.
\<close>

theorem createJob_disposed:
  "createJob J data (run J acts (snd (dispose st)))
     = (Inl (Error ''Instance is disposed''), run J acts (snd (dispose st)))"
  using run_isDisposed [OF dispose_isDisposed, of J acts st] by (simp add: createJob_def)

text \<open>
  Claim C3 says that after \<^verbatim>\<open>dispose\<close> no handler call and no delete call occurs,
  also when a handler call was in flight. \<^verbatim>\<open>dispose\<close> replaces \<^verbatim>\<open>_invokeMethod\<close> and
  \<^verbatim>\<open>_processMessages\<close> and clears \<^verbatim>\<open>_method\<close>, so no handler is called any more
  (\<open>run_no_handler_call\<close>); it leaves \<^verbatim>\<open>_completeJob\<close> as it is. When the handler of
  an item is pending, the instance is disposed and the handler then resolves, the
  continuation in \<^verbatim>\<open>_invokeMethod\<close> calls \<^verbatim>\<open>_completeJob\<close>, and the delete call is
  made, with the queue URL \<^verbatim>\<open>null\<close>.
\<close>

theorem delete_call_after_dispose:
  "isDisposed (run sampleJSON
      [StartFetch (), PassLaunch 0, ReceiveResolved 0 (Some [sampleJob]) returns, Dispose] (newSqs ''q'' 1))
   \<and> trace (run sampleJSON
      [StartFetch (), PassLaunch 0, ReceiveResolved 0 (Some [sampleJob]) returns, Dispose, HandlerSettles 0 None]
      (newSqs ''q'' 1))
     = trace (run sampleJSON
      [StartFetch (), PassLaunch 0, ReceiveResolved 0 (Some [sampleJob]) returns, Dispose] (newSqs ''q'' 1))
       @ [HandlerSettled 0 True, DeleteMessage 0 None ''r1'']"
  by code_simp

section \<open>Job items\<close>







section \<open>What re-runs the orchestration pass\<close>


text \<open>
  The \<^verbatim>\<open>catch\<close> of a worker reads \<^verbatim>\<open>err.ownError\<close>. When the reason is \<^verbatim>\<open>undefined\<close> the
  \<^verbatim>\<open>catch\<close> throws, the promise of the worker is rejected, and so is the \<^verbatim>\<open>map\<close>
  promise of the pass, whose \<^verbatim>\<open>catch\<close> logs the error and whose \<^verbatim>\<open>finally\<close> runs
  \<^verbatim>\<open>_mainLoop\<close> while the sibling is polling: a third receive call is made, and two
  are in flight.
\<close>

lemma rejected_worker_relaunches:
  "receiveCalls (trace (run sampleJSON
      [StartFetch (), PassLaunch 0, ReceiveRejected 0 Nullish, WorkerSettle 0, PassSettle 0,
       PassLaunch 1] (newSqs ''q'' 20))) = 3
   \<and> longPollsInFlight (run sampleJSON
      [StartFetch (), PassLaunch 0, ReceiveRejected 0 Nullish, WorkerSettle 0, PassSettle 0,
       PassLaunch 1] (newSqs ''q'' 20)) = 2
   \<and> map wst (workers (run sampleJSON
      [StartFetch (), PassLaunch 0, ReceiveRejected 0 Nullish, WorkerSettle 0, PassSettle 0,
       PassLaunch 1] (newSqs ''q'' 20)))
       = [Settled (Rejected (Obj (TypeError ''Cannot read property ownError of undefined''))),
          Polling True, Polling True]"
  by code_simp



end
